theory Spec2Isabelle
  imports Main "HOL-Library.Sublist"
begin

section \<open>The test launcher of \<open>src/lib/runTest.ts\<close>\<close>

text \<open>
  The file exports one asynchronous function, \<open>runTests\<close>, and keeps a helper,
  \<open>innerRunTests\<close>. The embedding below follows both line by line. What the functions
  do beyond computing values is made explicit:
  \<^item> the options object is passed in and returned, since line 129 assigns to one of its
    fields;
  \<^item> the imported \<open>downloadAndUnzipVSCode\<close> (module \<open>./download\<close>) and the ambient
    \<open>process.env\<close> are parameters;
  \<^item> \<open>cp.spawn\<close> is recorded as the call it receives; it either throws, or returns a
    child process, which is the list of events it emits, delivered in order to the four
    registered handlers;
  \<^item> the promise built at line 158 is a state that \<open>resolve\<close> and \<open>reject\<close> change at
    most once, and \<open>console.log\<close> appends to a list of lines.
\<close>

subsection \<open>JavaScript values\<close>

text \<open>
  An optional string property is \<open>string option\<close>, \<open>None\<close> for \<open>undefined\<close>. The
  conditions \<open>!x\<close>, \<open>if (x)\<close> and \<open>x || d\<close> test truthiness: \<open>undefined\<close> and the
  empty string are both falsy.
\<close>

definition truthy :: "string option \<Rightarrow> bool" where
  "truthy v = (case v of None \<Rightarrow> False | Some s \<Rightarrow> s \<noteq> [])"

text \<open>\<open>v || d\<close> on an optional string.\<close>

definition or_default :: "string option \<Rightarrow> string \<Rightarrow> string" where
  "or_default v d = (case v of None \<Rightarrow> d | Some s \<Rightarrow> if s \<noteq> [] then s else d)"

text \<open>
  An environment object of type \<open>{ [key: string]: string | undefined }\<close>: a key is absent
  (\<open>None\<close>), present with the value \<open>undefined\<close> (\<open>Some None\<close>) or present with a
  string.
\<close>

type_synonym js_env = "string \<rightharpoonup> string option"

text \<open>
  \<open>Object.assign(target, source)\<close> copies every own enumerable property of the source,
  whatever its value, over the target; an \<open>undefined\<close> source is skipped.
\<close>

definition assign :: "js_env \<Rightarrow> js_env option \<Rightarrow> js_env" where
  "assign target source = (case source of None \<Rightarrow> target | Some src \<Rightarrow> target ++ src)"

text \<open>\<open>s.includes(sub)\<close>: \<open>sub\<close> occurs in \<open>s\<close> as a contiguous run.\<close>

fun str_includes :: "string \<Rightarrow> string \<Rightarrow> bool" where
  "str_includes [] sub = (sub = [])"
| "str_includes (c # cs) sub = (prefix sub (c # cs) \<or> str_includes cs sub)"

text \<open>Decimal printing of an exit code inside a template literal; \<open>null\<close> prints as such.\<close>

definition digit_char :: "nat \<Rightarrow> char" where
  "digit_char d = char_of (48 + d)"

fun show_nat :: "nat \<Rightarrow> string" where
  "show_nat n = (if n < 10 then [digit_char n] else show_nat (n div 10) @ [digit_char (n mod 10)])"

definition show_code :: "int option \<Rightarrow> string" where
  "show_code code =
     (case code of
        None \<Rightarrow> ''null''
      | Some n \<Rightarrow> if n < 0 then CHR ''-'' # show_nat (nat (- n)) else show_nat (nat n))"

subsection \<open>The options object\<close>

text \<open>
  \<open>options: TestOptions | ExplicitTestOptions\<close> is one object at run time, and the code
  tells the two shapes apart by probing for the property \<open>launchArgs\<close> (line 132). The
  record has the fields of both interfaces; \<open>launchArgs\<close> is \<open>Some\<close> exactly when the
  property is there. The fields that only \<open>TestOptions\<close> declares are never read on an
  object that has \<open>launchArgs\<close>.
\<close>

record options =
  vscodeExecutablePath :: "string option"
  version :: "string option"
  extensionPath :: string
  testRunnerPath :: string
  testRunnerEnv :: "js_env option"
  testWorkspace :: "string option"
  additionalLaunchArgs :: "string list option"
  locale' :: "string option"
  launchArgs :: "string list option"

subsection \<open>The promise, the console and the child process\<close>

datatype settled = Pending | Resolved "int option" | Rejected string

datatype settle_call = CallResolve "int option" | CallReject string

text \<open>
  The state an invocation of \<open>innerRunTests\<close> works on: the promise it returns, the
  calls made to the promise's two resolving functions (each with whether it settled the
  promise), and the lines written with \<open>console.log\<close>.
\<close>

record proc_state =
  promise :: settled
  calls :: "(settle_call \<times> bool) list"
  console :: "string list"

definition initial :: proc_state where
  "initial = \<lparr>promise = Pending, calls = [], console = []\<rparr>"

definition console_log :: "string \<Rightarrow> proc_state \<Rightarrow> proc_state" where
  "console_log s st = st\<lparr>console := console st @ [s]\<rparr>"

text \<open>
  The resolving functions of a promise: the first call of either settles it, every later
  call is ignored.
\<close>

definition resolve :: "int option \<Rightarrow> proc_state \<Rightarrow> proc_state" where
  "resolve v st =
     st\<lparr>promise := (if promise st = Pending then Resolved v else promise st),
        calls := calls st @ [(CallResolve v, promise st = Pending)]\<rparr>"

definition reject :: "string \<Rightarrow> proc_state \<Rightarrow> proc_state" where
  "reject r st =
     st\<lparr>promise := (if promise st = Pending then Rejected r else promise st),
        calls := calls st @ [(CallReject r, promise st = Pending)]\<rparr>"

text \<open>
  What a child process emits: chunks on its two streams (already decoded by
  \<open>data.toString()\<close>), \<open>error\<close> events (the error, printed) and the \<open>close\<close> event with
  its exit code, \<open>null\<close> when a signal ended the process.
\<close>

datatype event =
    StdoutData string
  | StderrData string
  | ErrorEvent string
  | Close "int option"

fun isClose :: "event \<Rightarrow> bool" where
  "isClose (Close code) = True"
| "isClose e = False"

subsection \<open>The handlers of \<open>innerRunTests\<close> (lines 162 to 189)\<close>

definition on_stdout :: "string \<Rightarrow> proc_state \<Rightarrow> proc_state" where
  "on_stdout s st =
     (if \<not> str_includes s ''update#setState idle'' then console_log s st else st)"

definition on_stderr :: "string \<Rightarrow> proc_state \<Rightarrow> proc_state" where
  "on_stderr s st =
     (if \<not> str_includes s ''stty: stdin'' then console_log (''Spawn Error: '' @ s) st else st)"

definition on_error :: "string \<Rightarrow> proc_state \<Rightarrow> proc_state" where
  "on_error d st = console_log (''Test error: '' @ d) st"

definition on_close :: "int option \<Rightarrow> proc_state \<Rightarrow> proc_state" where
  "on_close code st =
     (let st1 = console_log (''Exit code:   '' @ show_code code) st;
          st2 = (if code \<noteq> Some 0 then reject ''Failed'' st1 else st1);
          st3 = console_log (''Done'' @ [CHR 0x0A]) st2
      in resolve code st3)"

fun dispatch :: "event \<Rightarrow> proc_state \<Rightarrow> proc_state" where
  "dispatch (StdoutData s) st = on_stdout s st"
| "dispatch (StderrData s) st = on_stderr s st"
| "dispatch (ErrorEvent d) st = on_error d st"
| "dispatch (Close code) st = on_close code st"

fun deliver :: "event list \<Rightarrow> proc_state \<Rightarrow> proc_state" where
  "deliver [] st = st"
| "deliver (e # es) st = deliver es (dispatch e st)"

subsection \<open>\<open>innerRunTests\<close> (lines 151 to 191)\<close>

record spawn_call =
  executable :: string
  args :: "string list"
  env :: js_env

record run =
  spawned :: spawn_call
  proc :: proc_state

text \<open>
  What \<open>cp.spawn\<close> does with the call, which is the platform's to decide. It throws
  before returning (Node does for an empty file name, for instance, or for an argument
  with a NUL byte in it), or it returns a child process, which emits events.
\<close>

datatype spawning = Throws string | Emits "event list"

text \<open>
  The call of \<open>cp.spawn\<close> at line 160 stands inside the executor of the promise. When it
  throws, the executor ends there: the promise constructor rejects the promise with what
  was thrown, and lines 162 to 189 have registered no handler. Otherwise the handlers
  are registered and receive the events of the child process.
\<close>

definition innerRunTests ::
  "js_env \<Rightarrow> string \<Rightarrow> string list \<Rightarrow> js_env option \<Rightarrow> spawning \<Rightarrow> run" where
  "innerRunTests ambient exe as tenv child =
     (let fullEnv = assign (assign Map.empty (Some ambient)) tenv;
          cmd = \<lparr>executable = exe, args = as, env = fullEnv\<rparr>
      in case child of
           Throws err \<Rightarrow> \<lparr>spawned = cmd, proc = reject err initial\<rparr>
         | Emits events \<Rightarrow> \<lparr>spawned = cmd, proc = deliver events initial\<rparr>)"

subsection \<open>\<open>runTests\<close> (lines 127 to 149)\<close>

text \<open>
  The collaborator returns a path or fails; its failure leaves \<open>runTests\<close> at the
  \<open>await\<close> of line 129, before anything is spawned. The result is the options object as
  the call leaves it, and either that failure or what \<open>innerRunTests\<close> did.
\<close>

definition runTests ::
  "(string option \<Rightarrow> string + string) \<Rightarrow> js_env \<Rightarrow> options \<Rightarrow> spawning
     \<Rightarrow> options \<times> (string + run)" where
  "runTests downloadAndUnzipVSCode ambient options child =
     (let fetched =
            (case downloadAndUnzipVSCode (version options) of
               Inl err \<Rightarrow> Inl err
             | Inr path \<Rightarrow> Inr (options\<lparr>vscodeExecutablePath := Some path\<rparr>, path))
      in case (case vscodeExecutablePath options of
                 None \<Rightarrow> fetched
               | Some exe \<Rightarrow> if exe = [] then fetched else Inr (options, exe)) of
           Inl err \<Rightarrow> (options, Inl err)
         | Inr (options1, exe) \<Rightarrow>
             (case launchArgs options1 of
                Some given \<Rightarrow>
                  (options1,
                   Inr (innerRunTests ambient exe given (testRunnerEnv options1) child))
              | None \<Rightarrow>
                  (let args0 = [''--extensionDevelopmentPath='' @ extensionPath options1,
                                ''--extensionTestsPath='' @ testRunnerPath options1,
                                ''--locale='' @ or_default (locale' options1) ''en''];
                       args1 = (case testWorkspace options1 of
                                  None \<Rightarrow> args0
                                | Some w \<Rightarrow> if w = [] then args0 else w # args0);
                       args2 = (case additionalLaunchArgs options1 of
                                  None \<Rightarrow> args1
                                | Some extra \<Rightarrow> args1 @ extra)
                   in (options1,
                       Inr (innerRunTests ambient exe args2 (testRunnerEnv options1) child)))))"

text \<open>
  The promise an \<open>async\<close> function returns: rejected with what an \<open>await\<close> threw,
  otherwise in the state of the promise the function returned.
\<close>

definition result :: "string + run \<Rightarrow> settled" where
  "result r = (case r of Inl err \<Rightarrow> Rejected err | Inr x \<Rightarrow> promise (proc x))"

text \<open>The call reaches \<open>cp.spawn\<close>: a usable path was passed, or the collaborator supplies one.\<close>

definition launches :: "(string option \<Rightarrow> string + string) \<Rightarrow> options \<Rightarrow> bool" where
  "launches downloadAndUnzipVSCode options =
     (if truthy (vscodeExecutablePath options) then True
      else (case downloadAndUnzipVSCode (version options) of
              Inl err \<Rightarrow> False
            | Inr path \<Rightarrow> True))"

subsection \<open>Concrete inputs\<close>

text \<open>
  A collaborator that finds a build for every version selector, and two options objects,
  one of each shape, on which the theorems below are exercised.
\<close>

definition sample_download :: "string option \<Rightarrow> string + string" where
  "sample_download v =
     (case v of
        None \<Rightarrow> Inr ''/vscode/stable/code''
      | Some s \<Rightarrow> Inr (''/vscode/'' @ s @ ''/code''))"

definition sample_options :: options where
  "sample_options =
     \<lparr>vscodeExecutablePath = Some ''/usr/bin/code'', version = None,
      extensionPath = ''/ext'', testRunnerPath = ''/ext/out/test'',
      testRunnerEnv = Some [''LANG'' \<mapsto> Some ''C''],
      testWorkspace = Some ''/ws'', additionalLaunchArgs = Some [''--disable-gpu''],
      locale' = None, launchArgs = None\<rparr>"

definition sample_explicit :: options where
  "sample_explicit =
     \<lparr>vscodeExecutablePath = Some [], version = Some ''insiders'',
      extensionPath = [], testRunnerPath = [],
      testRunnerEnv = None, testWorkspace = None, additionalLaunchArgs = None,
      locale' = None, launchArgs = Some [''/ws'', ''--extensionTestsPath=/t'']\<rparr>"

definition sample_ambient :: js_env where
  "sample_ambient = [''HOME'' \<mapsto> Some ''/root'', ''LANG'' \<mapsto> Some ''en_US'']"

text \<open>
  An options object with the required fields only, apart from an environment entry whose
  value is \<open>undefined\<close>.
\<close>

definition sample_bare :: options where
  "sample_bare =
     \<lparr>vscodeExecutablePath = None, version = None,
      extensionPath = ''/ext'', testRunnerPath = ''/ext/out/test'',
      testRunnerEnv = Some [''LANG'' \<mapsto> None],
      testWorkspace = None, additionalLaunchArgs = None,
      locale' = None, launchArgs = None\<rparr>"



section \<open>Properties\<close>

subsection \<open>Auxiliary facts\<close>

lemma str_includes_sublist: "str_includes s sub = sublist sub s"
  by (induction s) (simp_all add: sublist_Cons_right)

lemma deliver_append: "deliver (xs @ ys) st = deliver ys (deliver xs st)"
  by (induction xs arbitrary: st) simp_all

lemma promise_console_log [simp]: "promise (console_log s st) = promise st"
  by (simp add: console_log_def)

lemma calls_console_log [simp]: "calls (console_log s st) = calls st"
  by (simp add: console_log_def)

lemma dispatch_other:
  "\<not> isClose e \<Longrightarrow> promise (dispatch e st) = promise st \<and> calls (dispatch e st) = calls st"
  by (cases e) (simp_all add: on_stdout_def on_stderr_def on_error_def)

lemma deliver_other:
  "\<not> list_ex isClose es \<Longrightarrow>
     promise (deliver es st) = promise st \<and> calls (deliver es st) = calls st"
  by (induction es arbitrary: st) (simp_all add: dispatch_other)

lemma promise_on_close:
  "promise (on_close code st) =
     (if promise st \<noteq> Pending then promise st
      else if code = Some 0 then Resolved (Some 0) else Rejected ''Failed'')"
  by (simp add: on_close_def resolve_def reject_def Let_def)

lemma calls_on_close:
  "calls (on_close code st) =
     calls st @
       (if code = Some 0 then [(CallResolve code, promise st = Pending)]
        else [(CallReject ''Failed'', promise st = Pending), (CallResolve code, False)])"
  by (simp add: on_close_def resolve_def reject_def Let_def)

lemma dispatch_settled:
  "promise st \<noteq> Pending \<Longrightarrow> promise (dispatch e st) = promise st"
  by (cases e) (simp_all add: on_stdout_def on_stderr_def on_error_def promise_on_close)

lemma deliver_settled:
  "promise st \<noteq> Pending \<Longrightarrow> promise (deliver es st) = promise st"
  by (induction es arbitrary: st) (simp_all add: dispatch_settled)

text \<open>The state of the promise once the first \<open>close\<close> event of a run has been handled.\<close>

lemma promise_first_close:
  assumes "\<not> list_ex isClose pre"
  shows "promise (deliver (pre @ Close code # post) initial) =
           (if code = Some 0 then Resolved (Some 0) else Rejected ''Failed'')"
proof -
  have pending: "promise (deliver pre initial) = Pending"
    using deliver_other[OF assms, of initial] by (simp add: initial_def)
  have closed: "promise (on_close code (deliver pre initial)) \<noteq> Pending"
    by (simp add: promise_on_close pending)
  have "promise (deliver (pre @ Close code # post) initial) =
          promise (on_close code (deliver pre initial))"
    by (simp add: deliver_append deliver_settled[OF closed])
  then show ?thesis
    by (simp add: promise_on_close pending)
qed

text \<open>
  What \<open>runTests\<close> hands to \<open>innerRunTests\<close> when it gets as far as spawning: some
  executable, the given or the built argument list, and the caller's environment entries.
\<close>

lemma snd_runTests:
  assumes "launches d opts"
  shows "\<exists>exe. snd (runTests d a opts child) =
           Inr (innerRunTests a exe
             (case launchArgs opts of
                Some given \<Rightarrow> given
              | None \<Rightarrow>
                  (case testWorkspace opts of None \<Rightarrow> [] | Some w \<Rightarrow> if w = [] then [] else [w]) @
                  [''--extensionDevelopmentPath='' @ extensionPath opts,
                   ''--extensionTestsPath='' @ testRunnerPath opts,
                   ''--locale='' @ or_default (locale' opts) ''en''] @
                  (case additionalLaunchArgs opts of None \<Rightarrow> [] | Some extra \<Rightarrow> extra))
             (testRunnerEnv opts) child)"
proof (cases "truthy (vscodeExecutablePath opts)")
  case True
  then obtain exe where exe: "vscodeExecutablePath opts = Some exe" "exe \<noteq> []"
    by (auto simp: truthy_def split: option.splits)
  show ?thesis
    by (rule exI[of _ exe]) (simp add: runTests_def exe Let_def split: option.split)
next
  case False
  with assms obtain path where path: "d (version opts) = Inr path"
    by (auto simp: launches_def split: sum.splits)
  from False have "vscodeExecutablePath opts = None \<or> vscodeExecutablePath opts = Some []"
    by (auto simp: truthy_def split: option.splits)
  then show ?thesis
    by (intro exI[of _ path]) (auto simp: runTests_def path Let_def split: option.split)
qed

lemma args_innerRunTests [simp]: "args (spawned (innerRunTests a exe as tenv child)) = as"
  by (cases child) (simp_all add: innerRunTests_def)

lemma executable_innerRunTests [simp]:
  "executable (spawned (innerRunTests a exe as tenv child)) = exe"
  by (cases child) (simp_all add: innerRunTests_def)

lemma env_innerRunTests [simp]:
  "env (spawned (innerRunTests a exe as tenv child)) = assign (assign Map.empty (Some a)) tenv"
  by (cases child) (simp_all add: innerRunTests_def)

lemma proc_innerRunTests [simp]:
  "proc (innerRunTests a exe as tenv (Emits es)) = deliver es initial"
  "proc (innerRunTests a exe as tenv (Throws err)) = reject err initial"
  by (simp_all add: innerRunTests_def)

lemma runTests_launches:
  "launches d opts \<Longrightarrow>
     \<exists>r. snd (runTests d a opts (Emits es)) = Inr r \<and> proc r = deliver es initial"
  using snd_runTests[of d opts a "Emits es"] by auto

lemma result_runTests:
  "launches d opts \<Longrightarrow>
     result (snd (runTests d a opts (Emits es))) = promise (deliver es initial)"
  using runTests_launches[of d opts a es] by (auto simp: result_def)


lemma launches_sample [simp]:
  "launches sample_download sample_options" "launches sample_download sample_explicit"
  by (simp_all add: launches_def sample_download_def sample_options_def sample_explicit_def
      truthy_def)

lemma launches_bare [simp]: "launches sample_download sample_bare"
  by (simp add: launches_def sample_download_def sample_bare_def truthy_def)

text \<open>What a handler logs does not depend on what was logged or settled before.\<close>

lemma console_dispatch:
  "console (dispatch e st) = console st @ console (dispatch e initial)"
  by (cases e)
    (simp_all add: on_stdout_def on_stderr_def on_error_def on_close_def console_log_def
      resolve_def reject_def initial_def Let_def)

lemma console_deliver:
  "console (deliver es st) = console st @ console (deliver es initial)"
proof (induction es arbitrary: st)
  case Nil
  show ?case
    by (simp add: initial_def)
next
  case (Cons e es)
  show ?case
    using Cons.IH[of "dispatch e st"] Cons.IH[of "dispatch e initial"]
    by (simp add: console_dispatch[of e st])
qed

lemma console_on_stdout:
  "console (on_stdout s initial) = (if sublist ''update#setState idle'' s then [] else [s])"
  by (simp add: on_stdout_def console_log_def initial_def str_includes_sublist)

subsection \<open>Exit code and result\<close>

text \<open>
  C1. When the child process closes with exit code 0, the promise that \<open>runTests\<close>
  returns is fulfilled with the value 0. The \<open>close\<close> event may come after any stream
  chunks and \<open>error\<close> events, and nothing delivered after it changes the result.
\<close>

theorem runTests_exit_zero:
  assumes "launches d opts" and "\<not> list_ex isClose pre"
  shows "result (snd (runTests d ambient opts (Emits (pre @ Close (Some 0) # post)))) = Resolved (Some 0)"
  using assms by (simp add: result_runTests promise_first_close)

theorem runTests_exit_zero_witness:
  "launches sample_download sample_options
   \<and> \<not> list_ex isClose [StdoutData ''1 passing'', ErrorEvent ''Error: EPIPE'']
   \<and> result (snd (runTests sample_download sample_ambient sample_options
        (Emits ([StdoutData ''1 passing'', ErrorEvent ''Error: EPIPE''] @ Close (Some 0) # []))))
      = Resolved (Some 0)"
  using runTests_exit_zero[of sample_download sample_options
      "[StdoutData ''1 passing'', ErrorEvent ''Error: EPIPE'']" sample_ambient "[]"]
  by simp

text \<open>
  C2. When the child process closes with any other exit code, \<open>null\<close> (a process ended by
  a signal) included, the promise that \<open>runTests\<close> returns is rejected, with the string
  \<open>Failed\<close>.
\<close>

theorem runTests_exit_nonzero:
  assumes "launches d opts" and "\<not> list_ex isClose pre" and "code \<noteq> Some 0"
  shows "result (snd (runTests d ambient opts (Emits (pre @ Close code # post)))) =
           Rejected ''Failed''"
  using assms by (simp add: result_runTests promise_first_close)

theorem runTests_exit_nonzero_witness:
  "launches sample_download sample_options
   \<and> \<not> list_ex isClose [StderrData ''1 failing'']
   \<and> None \<noteq> Some (0::int)
   \<and> result (snd (runTests sample_download sample_ambient sample_options
        (Emits ([StderrData ''1 failing''] @ Close None # [])))) = Rejected ''Failed''"
  using runTests_exit_nonzero[of sample_download sample_options
      "[StderrData ''1 failing'']" None sample_ambient "[]"]
  by simp




text \<open>
  C9. On a \<open>close\<close> event with a code other than 0 the handler calls \<open>reject\<close> and then,
  not having returned, \<open>resolve\<close> as well. The first call settles the promise and the
  second is ignored: over the whole run the two calls are the only ones made, exactly one
  of them took effect, and the promise is rejected.
\<close>

theorem close_nonzero_rejects_then_resolves:
  assumes "launches d opts" and "\<not> list_ex isClose pre" and "\<not> list_ex isClose post"
    and "code \<noteq> Some 0"
  shows "\<exists>r. snd (runTests d ambient opts (Emits (pre @ Close code # post))) = Inr r
           \<and> calls (proc r) = [(CallReject ''Failed'', True), (CallResolve code, False)]
           \<and> promise (proc r) = Rejected ''Failed''"
proof -
  obtain r where r: "snd (runTests d ambient opts (Emits (pre @ Close code # post))) = Inr r"
    and p: "proc r = deliver (pre @ Close code # post) initial"
    using runTests_launches[OF assms(1)] by blast
  have before: "promise (deliver pre initial) = Pending" "calls (deliver pre initial) = []"
    using deliver_other[OF assms(2), of initial] by (simp_all add: initial_def)
  have "calls (proc r) = calls (on_close code (deliver pre initial))"
    unfolding p by (simp add: deliver_append deliver_other[OF assms(3)])
  then have "calls (proc r) = [(CallReject ''Failed'', True), (CallResolve code, False)]"
    using assms(4) by (simp add: calls_on_close before)
  moreover have "promise (proc r) = Rejected ''Failed''"
    unfolding p using assms(4) by (simp add: promise_first_close[OF assms(2)])
  ultimately show ?thesis
    using r by blast
qed

theorem close_nonzero_rejects_then_resolves_witness:
  "launches sample_download sample_options
   \<and> \<not> list_ex isClose [StdoutData ''0 passing'']
   \<and> \<not> list_ex isClose [StderrData ''late'']
   \<and> Some 1 \<noteq> Some (0::int)
   \<and> (\<exists>r. snd (runTests sample_download sample_ambient sample_options
              (Emits ([StdoutData ''0 passing''] @ Close (Some 1) # [StderrData ''late'']))) = Inr r
         \<and> calls (proc r) = [(CallReject ''Failed'', True), (CallResolve (Some 1), False)]
         \<and> promise (proc r) = Rejected ''Failed'')"
  using close_nonzero_rejects_then_resolves[of sample_download sample_options
      "[StdoutData ''0 passing'']" "[StderrData ''late'']" "Some 1" sample_ambient]
  by simp

subsection \<open>Arguments and executable of the spawned process\<close>

text \<open>
  C4. For an options object without \<open>launchArgs\<close>, the argument list passed to
  \<open>cp.spawn\<close> is, in this order: the workspace path when one is given (the code tests
  \<open>options.testWorkspace\<close> for truthiness, so an empty string counts as not given), then
  \<open>--extensionDevelopmentPath=\<close> with the extension path, \<open>--extensionTestsPath=\<close> with
  the test runner path, \<open>--locale=\<close> with the locale or, in its place, \<open>en\<close>, and then
  the additional launch arguments in the order given.
\<close>

theorem runTests_implicit_args:
  assumes "launches d opts" and "launchArgs opts = None"
  shows "\<exists>r. snd (runTests d ambient opts child) = Inr r
           \<and> args (spawned r) =
               (case testWorkspace opts of None \<Rightarrow> [] | Some w \<Rightarrow> if w = [] then [] else [w]) @
               [''--extensionDevelopmentPath='' @ extensionPath opts,
                ''--extensionTestsPath='' @ testRunnerPath opts,
                ''--locale='' @
                  (case locale' opts of None \<Rightarrow> ''en'' | Some l \<Rightarrow> if l = [] then ''en'' else l)] @
               (case additionalLaunchArgs opts of None \<Rightarrow> [] | Some extra \<Rightarrow> extra)"
proof -
  obtain exe where "snd (runTests d ambient opts child) =
      Inr (innerRunTests ambient exe
        ((case testWorkspace opts of None \<Rightarrow> [] | Some w \<Rightarrow> if w = [] then [] else [w]) @
         [''--extensionDevelopmentPath='' @ extensionPath opts,
          ''--extensionTestsPath='' @ testRunnerPath opts,
          ''--locale='' @ or_default (locale' opts) ''en''] @
         (case additionalLaunchArgs opts of None \<Rightarrow> [] | Some extra \<Rightarrow> extra))
        (testRunnerEnv opts) child)"
    using snd_runTests[OF assms(1), of ambient child] by (auto simp: assms(2))
  moreover have "or_default (locale' opts) ''en'' =
      (case locale' opts of None \<Rightarrow> ''en'' | Some l \<Rightarrow> if l = [] then ''en'' else l)"
    by (simp add: or_default_def split: option.split)
  ultimately show ?thesis
    by simp
qed

theorem runTests_implicit_args_witness:
  "launches sample_download sample_options
   \<and> launchArgs sample_options = None
   \<and> (\<exists>r. snd (runTests sample_download sample_ambient sample_options (Emits [])) = Inr r
         \<and> args (spawned r) =
             [''/ws'', ''--extensionDevelopmentPath=/ext'',
              ''--extensionTestsPath=/ext/out/test'', ''--locale=en'', ''--disable-gpu''])"
  using runTests_implicit_args[of sample_download sample_options sample_ambient "Emits []"]
  by (simp add: sample_options_def launches_def truthy_def)

text \<open>
  C5. For an options object with \<open>launchArgs\<close>, the argument list passed to \<open>cp.spawn\<close>
  is that list, whatever the other fields hold: nothing is put before it, nothing after
  it, and no argument is built from the other fields.
\<close>

theorem runTests_explicit_args_verbatim:
  assumes "launches d opts" and "launchArgs opts = Some given"
  shows "\<exists>r. snd (runTests d ambient opts child) = Inr r \<and> args (spawned r) = given"
  using snd_runTests[OF assms(1), of ambient child] by (auto simp: assms(2))

theorem runTests_explicit_args_verbatim_witness:
  "launches sample_download sample_explicit
   \<and> launchArgs sample_explicit = Some [''/ws'', ''--extensionTestsPath=/t'']
   \<and> (\<exists>r. snd (runTests sample_download sample_ambient sample_explicit (Emits [])) = Inr r
         \<and> args (spawned r) = [''/ws'', ''--extensionTestsPath=/t''])"
  using runTests_explicit_args_verbatim[of sample_download sample_explicit
      "[''/ws'', ''--extensionTestsPath=/t'']" sample_ambient "Emits []"]
  by (simp add: sample_explicit_def sample_download_def launches_def truthy_def)

text \<open>
  C10. An options object whose \<open>vscodeExecutablePath\<close> is the empty string is handled as
  one without the property: \<open>downloadAndUnzipVSCode\<close> is called with \<open>options.version\<close>,
  the path it returns is the executable that is spawned (and its failure is the failure
  of \<open>runTests\<close>), and the outcome is that of the same call with the property absent.
\<close>

theorem runTests_empty_executable_path:
  assumes "vscodeExecutablePath opts = Some []"
  shows "(case d (version opts) of
            Inl err \<Rightarrow> snd (runTests d ambient opts child) = Inl err
          | Inr path \<Rightarrow>
              (\<exists>r. snd (runTests d ambient opts child) = Inr r
                 \<and> executable (spawned r) = path))
         \<and> snd (runTests d ambient opts child) =
             snd (runTests d ambient (opts\<lparr>vscodeExecutablePath := None\<rparr>) child)"
proof (cases "d (version opts)")
  case (Inl err)
  then show ?thesis
    by (simp add: runTests_def assms)
next
  case (Inr path)
  then show ?thesis
    by (simp add: runTests_def assms Let_def split: option.split)
qed

theorem runTests_empty_executable_path_witness:
  "vscodeExecutablePath sample_explicit = Some []
   \<and> (\<exists>r. snd (runTests sample_download sample_ambient sample_explicit (Emits [])) = Inr r
         \<and> executable (spawned r) = ''/vscode/insiders/code'')"
proof -
  have empty: "vscodeExecutablePath sample_explicit = Some []"
    by (simp add: sample_explicit_def)
  have fetched: "sample_download (version sample_explicit) = Inr ''/vscode/insiders/code''"
    by (simp add: sample_explicit_def sample_download_def)
  from runTests_empty_executable_path[OF empty, of sample_download sample_ambient "Emits []",
      THEN conjunct1]
  have "\<exists>r. snd (runTests sample_download sample_ambient sample_explicit (Emits [])) = Inr r
          \<and> executable (spawned r) = ''/vscode/insiders/code''"
    by (simp add: fetched)
  with empty show ?thesis
    by simp
qed

subsection \<open>Environment of the spawned process\<close>

text \<open>
  C6, as the code has it. The environment passed to \<open>cp.spawn\<close> is the ambient one
  overwritten by \<open>Object.assign\<close> with every entry of \<open>testRunnerEnv\<close>: a key the caller
  supplies maps to the caller's value, also when that value is \<open>undefined\<close>, and every
  other key keeps its ambient value. Without a \<open>testRunnerEnv\<close> it is the ambient
  environment.
\<close>

theorem runTests_merged_env:
  assumes "launches d opts"
  shows "\<exists>r. snd (runTests d ambient opts child) = Inr r
           \<and> env (spawned r) =
               (case testRunnerEnv opts of
                  None \<Rightarrow> ambient
                | Some given \<Rightarrow> (\<lambda>k. case given k of None \<Rightarrow> ambient k | Some v \<Rightarrow> Some v))"
proof -
  obtain r where r: "snd (runTests d ambient opts child) = Inr r"
    and e: "env (spawned r) = assign (assign Map.empty (Some ambient)) (testRunnerEnv opts)"
    using snd_runTests[OF assms, of ambient child] by auto
  have "assign (assign Map.empty (Some ambient)) (testRunnerEnv opts) =
      (case testRunnerEnv opts of
         None \<Rightarrow> ambient
       | Some given \<Rightarrow> (\<lambda>k. case given k of None \<Rightarrow> ambient k | Some v \<Rightarrow> Some v))"
    by (auto simp: assign_def map_add_def split: option.splits)
  with r e show ?thesis
    by simp
qed

theorem runTests_merged_env_witness:
  "launches sample_download sample_options
   \<and> (\<exists>r. snd (runTests sample_download sample_ambient sample_options (Emits [])) = Inr r
         \<and> env (spawned r) ''LANG'' = Some (Some ''C'')
         \<and> env (spawned r) ''HOME'' = Some (Some ''/root''))"
proof -
  from runTests_merged_env[OF launches_sample(1), of sample_ambient "Emits []"]
  obtain r where r: "snd (runTests sample_download sample_ambient sample_options (Emits [])) = Inr r"
    and e: "env (spawned r) =
      (\<lambda>k. case [''LANG'' \<mapsto> Some ''C''] k of None \<Rightarrow> sample_ambient k | Some v \<Rightarrow> Some v)"
    by (auto simp: sample_options_def)
  have "env (spawned r) ''LANG'' = Some (Some ''C'')"
    and "env (spawned r) ''HOME'' = Some (Some ''/root'')"
    unfolding e by (simp_all add: sample_ambient_def)
  with r show ?thesis
    by auto
qed

text \<open>
  C6 as stated fails for an entry whose value is \<open>undefined\<close>: with \<open>LANG\<close> set to
  \<open>en_US\<close> in the ambient environment and to \<open>undefined\<close> by the caller, the
  environment passed to \<open>cp.spawn\<close> has \<open>LANG\<close> with the value \<open>undefined\<close>, not the
  ambient value.
\<close>

theorem unset_entry_overrides_ambient:
  "(case snd (runTests sample_download sample_ambient sample_bare (Emits [])) of
      Inl err \<Rightarrow> False
    | Inr r \<Rightarrow>
        env (spawned r) ''LANG'' = Some None
        \<and> env (spawned r) ''LANG'' \<noteq> sample_ambient ''LANG'')
   \<and> testRunnerEnv sample_bare = Some [''LANG'' \<mapsto> None]
   \<and> sample_ambient ''LANG'' = Some (Some ''en_US'')"
  by (simp add: runTests_def sample_bare_def sample_download_def sample_ambient_def
      assign_def Let_def)

subsection \<open>The options object after the call\<close>

text \<open>
  C7, as the code has it. The call leaves the options object as it was when it holds a
  non-empty \<open>vscodeExecutablePath\<close> or when the download fails; otherwise it stores the
  downloaded path in \<open>vscodeExecutablePath\<close>. Every other field is unchanged in all
  cases.
\<close>

theorem runTests_options_after:
  "fst (runTests d ambient opts child) =
     (if truthy (vscodeExecutablePath opts) then opts
      else (case d (version opts) of
              Inl err \<Rightarrow> opts
            | Inr path \<Rightarrow> opts\<lparr>vscodeExecutablePath := Some path\<rparr>))
   \<and> (fst (runTests d ambient opts child))\<lparr>vscodeExecutablePath := vscodeExecutablePath opts\<rparr>
       = opts"
  by (cases "d (version opts)")
    (simp_all add: runTests_def truthy_def Let_def split: option.split)

text \<open>
  C7 as stated fails for an options object without \<open>vscodeExecutablePath\<close>: after the
  call the property is there, holding the downloaded path.
\<close>

theorem runTests_writes_executable_path:
  "vscodeExecutablePath sample_bare = None
   \<and> vscodeExecutablePath (fst (runTests sample_download sample_ambient sample_bare (Emits [])))
       = Some ''/vscode/stable/code''"
  by (simp add: runTests_def sample_bare_def sample_download_def Let_def)

subsection \<open>Filtering of standard output\<close>

text \<open>
  C8, as the code has it. A chunk of standard output is logged exactly when it does not
  contain \<open>update#setState idle\<close>, wherever in a run it arrives: the lines on the console
  are those logged for the events before the chunk, then the chunk itself unless the
  marker occurs in it, then those logged for the events after it. The chunk that is the
  marker followed by a newline is among the suppressed ones.
\<close>

theorem runTests_stdout_filter:
  assumes "launches d opts"
  shows "\<exists>before after r.
           snd (runTests d ambient opts (Emits pre)) = Inr before
           \<and> snd (runTests d ambient opts (Emits post)) = Inr after
           \<and> snd (runTests d ambient opts (Emits (pre @ StdoutData s # post))) = Inr r
           \<and> console (proc r) =
               console (proc before) @
               (if sublist ''update#setState idle'' s then [] else [s]) @
               console (proc after)"
proof -
  obtain before where before: "snd (runTests d ambient opts (Emits pre)) = Inr before"
    "proc before = deliver pre initial"
    using runTests_launches[OF assms] by blast
  obtain after where after: "snd (runTests d ambient opts (Emits post)) = Inr after"
    "proc after = deliver post initial"
    using runTests_launches[OF assms] by blast
  obtain r where r: "snd (runTests d ambient opts (Emits (pre @ StdoutData s # post))) = Inr r"
    "proc r = deliver (pre @ StdoutData s # post) initial"
    using runTests_launches[OF assms] by blast
  have "console (proc r) = console (deliver post (on_stdout s (deliver pre initial)))"
    by (simp add: r(2) deliver_append)
  also have "\<dots> = console (on_stdout s (deliver pre initial)) @ console (deliver post initial)"
    by (rule console_deliver)
  also have "console (on_stdout s (deliver pre initial)) =
      console (deliver pre initial) @ console (on_stdout s initial)"
    using console_dispatch[of "StdoutData s" "deliver pre initial"] by simp
  finally have "console (proc r) =
      console (proc before) @
      (if sublist ''update#setState idle'' s then [] else [s]) @
      console (proc after)"
    by (simp add: before(2) after(2) console_on_stdout)
  with before(1) after(1) r(1) show ?thesis
    by blast
qed

theorem runTests_stdout_filter_witness:
  "launches sample_download sample_options
   \<and> (\<exists>r. snd (runTests sample_download sample_ambient sample_options
              (Emits ([StderrData ''update#setState idle''] @ StdoutData ''1 passing'' #
                      [StdoutData (''update#setState idle'' @ [CHR 0x0A])]))) = Inr r
         \<and> console (proc r) = [''Spawn Error: update#setState idle'', ''1 passing''])"
proof -
  from runTests_stdout_filter[OF launches_sample(1), of sample_ambient
      "[StderrData ''update#setState idle'']"
      "[StdoutData (''update#setState idle'' @ [CHR 0x0A])]" "''1 passing''"]
  obtain before after r where
    before: "snd (runTests sample_download sample_ambient sample_options
              (Emits [StderrData ''update#setState idle''])) = Inr before"
    and after: "snd (runTests sample_download sample_ambient sample_options
              (Emits [StdoutData (''update#setState idle'' @ [CHR 0x0A])])) = Inr after"
    and r: "snd (runTests sample_download sample_ambient sample_options
              (Emits ([StderrData ''update#setState idle''] @ StdoutData ''1 passing'' #
                      [StdoutData (''update#setState idle'' @ [CHR 0x0A])]))) = Inr r"
    and lines: "console (proc r) =
        console (proc before) @
        (if sublist ''update#setState idle'' ''1 passing'' then [] else [''1 passing'']) @
        console (proc after)"
    by blast
  have "proc before = deliver [StderrData ''update#setState idle''] initial"
    using runTests_launches[OF launches_sample(1), of sample_ambient
        "[StderrData ''update#setState idle'']"] before by simp
  then have b: "console (proc before) = [''Spawn Error: update#setState idle'']"
    by (simp add: on_stderr_def console_log_def initial_def)
  have "proc after = deliver [StdoutData (''update#setState idle'' @ [CHR 0x0A])] initial"
    using runTests_launches[OF launches_sample(1), of sample_ambient
        "[StdoutData (''update#setState idle'' @ [CHR 0x0A])]"] after by simp
  then have a: "console (proc after) = []"
    by (simp add: on_stdout_def initial_def)
  have m: "\<not> sublist ''update#setState idle'' ''1 passing''"
    by (simp add: sublist_Cons_right)
  from lines have "console (proc r) = [''Spawn Error: update#setState idle'', ''1 passing'']"
    by (simp add: a b m)
  with r show ?thesis
    by simp
qed

text \<open>
  C8 as stated fails for a chunk that contains the marker without being equal to the
  marker followed by a newline: it is suppressed, not forwarded.
\<close>

theorem stdout_chunk_with_marker_inside:
  "(case snd (runTests sample_download sample_ambient sample_bare
             (Emits [StdoutData ''[main 10:00:00] update#setState idle''])) of
      Inl err \<Rightarrow> False
    | Inr r \<Rightarrow> console (proc r) = [])
   \<and> ''[main 10:00:00] update#setState idle'' \<noteq> ''update#setState idle'' @ [CHR 0x0A]"
  by (simp add: runTests_def sample_bare_def sample_download_def innerRunTests_def
      on_stdout_def initial_def Let_def)

end
